theory Spec2Isabelle
  imports Main "HOL-Library.Word"
begin

section \<open>Strings\<close>

text \<open>
  A TypeScript string is a sequence of UTF-16 code units, 16-bit words. The string
  literals of the source are ASCII; \<open>js\<close> turns such a literal into its code units.
\<close>

type_synonym codeunit = "16 word"

type_synonym jsstring = "codeunit list"

definition js :: "string \<Rightarrow> jsstring" where
  "js s = map of_char s"

text \<open>
  The white space of \<open>String.prototype.trim\<close> and of \<open>\s\<close> in a regular expression:
  the \<open>WhiteSpace\<close> code points of ECMAScript (tab, vertical tab, form feed, the byte
  order mark U+FEFF and the space separators of Unicode: U+0020, U+00A0, U+1680,
  U+2000 to U+200A, U+202F, U+205F, U+3000) and its \<open>LineTerminator\<close> code points (line
  feed, carriage return, U+2028, U+2029). Each is one code unit.
\<close>

definition isWhiteSpace :: "codeunit \<Rightarrow> bool" where
  "isWhiteSpace c =
     (c \<in> set [0x0009, 0x000B, 0x000C, 0xFEFF,
                0x0020, 0x00A0, 0x1680, 0x2000, 0x2001, 0x2002, 0x2003, 0x2004, 0x2005,
                0x2006, 0x2007, 0x2008, 0x2009, 0x200A, 0x202F, 0x205F, 0x3000,
                0x000A, 0x000D, 0x2028, 0x2029])"

definition trim :: "jsstring \<Rightarrow> jsstring" where
  "trim s = rev (dropWhile isWhiteSpace (rev (dropWhile isWhiteSpace s)))"

text \<open>
  \<open>toLowerCase\<close> and \<open>toUpperCase\<close> follow the case conversion of Unicode. On a string
  of ASCII code units it changes the letters \<open>A\<close> to \<open>Z\<close>, or \<open>a\<close> to \<open>z\<close>, one by one
  and nothing else. On a string with a code unit from 128 on it follows the tables of
  the Unicode standard (where a conversion may change the length, or depend on the
  neighbours of a letter); these tables are no part of the repository and are
  parameters of the model: \<open>lowerCaseOf U s\<close> and \<open>upperCaseOf U s\<close> are what the
  language gives for such a string \<open>s\<close>.
\<close>

record UnicodeTables =
  lowerCaseOf :: "jsstring \<Rightarrow> jsstring"
  upperCaseOf :: "jsstring \<Rightarrow> jsstring"

definition isAscii :: "codeunit \<Rightarrow> bool" where
  "isAscii c = (c < 0x80)"

definition asciiLower :: "codeunit \<Rightarrow> codeunit" where
  "asciiLower c = (if 0x41 \<le> c \<and> c \<le> 0x5A then c + 0x20 else c)"

definition asciiUpper :: "codeunit \<Rightarrow> codeunit" where
  "asciiUpper c = (if 0x61 \<le> c \<and> c \<le> 0x7A then c - 0x20 else c)"

definition toLowerCase :: "UnicodeTables \<Rightarrow> jsstring \<Rightarrow> jsstring" where
  "toLowerCase U s = (if list_all isAscii s then map asciiLower s else lowerCaseOf U s)"

definition toUpperCase :: "UnicodeTables \<Rightarrow> jsstring \<Rightarrow> jsstring" where
  "toUpperCase U s = (if list_all isAscii s then map asciiUpper s else upperCaseOf U s)"

text \<open>\<open>s.startsWith(t)\<close> and \<open>s.includes(t)\<close>: \<open>t\<close> occurs in \<open>s\<close> at some position.\<close>

fun startsWith :: "jsstring \<Rightarrow> jsstring \<Rightarrow> bool" where
  "startsWith s [] = True"
| "startsWith [] (d # t) = False"
| "startsWith (c # s) (d # t) = (c = d \<and> startsWith s t)"

fun includes_str :: "jsstring \<Rightarrow> jsstring \<Rightarrow> bool" where
  "includes_str [] t = startsWith [] t"
| "includes_str (c # s) t = (startsWith (c # s) t \<or> includes_str s t)"

subsection \<open>The regular expression of the e-mail validator\<close>

text \<open>
  The regular expression of the repository has no flag, so it matches code unit by code
  unit. It is anchored at both ends and is a sequence of atoms, each taken once or one
  or more times (\<open>+\<close>). An atom is a literal character or a negated class such as
  \<open>[^\s@]\<close>.
\<close>

datatype cclass = Chr codeunit | WhiteSpace

datatype atom = Lit codeunit | NotIn "cclass list"

datatype item = Once atom | OneOrMore atom

fun inClass :: "cclass \<Rightarrow> codeunit \<Rightarrow> bool" where
  "inClass (Chr d) c = (c = d)"
| "inClass WhiteSpace c = isWhiteSpace c"

fun atomMatches :: "atom \<Rightarrow> codeunit \<Rightarrow> bool" where
  "atomMatches (Lit d) c = (c = d)"
| "atomMatches (NotIn cs) c = (\<not> list_ex (\<lambda>k. inClass k c) cs)"

text \<open>
  \<open>regexTest p s\<close> is \<open>/^p$/.test(s)\<close>: some way of splitting \<open>s\<close> among the items
  of \<open>p\<close> matches all of it.
\<close>

fun regexTest :: "item list \<Rightarrow> jsstring \<Rightarrow> bool" where
  "regexTest [] s = (s = [])"
| "regexTest (Once a # p) [] = False"
| "regexTest (Once a # p) (c # s) = (atomMatches a c \<and> regexTest p s)"
| "regexTest (OneOrMore a # p) [] = False"
| "regexTest (OneOrMore a # p) (c # s) =
     (atomMatches a c \<and> (regexTest (OneOrMore a # p) s \<or> regexTest p s))"

text \<open>
  \<^verbatim>\<open>const emailRegex = /^[^\s@]+@[^\s@]+\.[^\s@]+$/;\<close>
  with \<open>@\<close> the code unit 0x40 and the dot 0x2E.
\<close>

definition emailRegex :: "item list" where
  "emailRegex =
     [OneOrMore (NotIn [WhiteSpace, Chr 0x40]), Once (Lit 0x40),
      OneOrMore (NotIn [WhiteSpace, Chr 0x40]), Once (Lit 0x2E),
      OneOrMore (NotIn [WhiteSpace, Chr 0x40])]"

section \<open>Asynchronous methods and the result convention\<close>

text \<open>
  An error object is its constructor and its message. The repository constructs a
  \<open>RangeError\<close>; the other constructors stand for what an arbitrary implementation of
  an interface may throw.
\<close>

datatype JsError = GenericError jsstring | RangeError jsstring | TypeError jsstring

text \<open>
  An \<open>async\<close> method returns a promise, and an \<open>await\<close> on it is the sequential call:
  the promise is fulfilled with the value the body returns, or rejected with what the
  body throws, and a rejected promise makes the \<open>await\<close> throw in the caller.
\<close>

datatype 'a outcome = Fulfilled 'a | Rejected JsError

text \<open>
  Modelled from the spec: \<open>FlowResult\<close>, \<open>success\<close>, \<open>failure\<close> and \<open>flowError\<close> are
  imported from the package \<open>@codechu/flow-core-seed\<close>, which is not part of this
  repository. The spec describes them as a binary result-wrapping convention, success
  with a value or failure with a structured error; they are modelled as the two
  constructors of a datatype. The discriminator is the field the classes test
  (\<open>result.isSuccess\<close>; the tests read the same flag as \<open>result.success\<close>), the selector
  is the field they read on success (\<open>result.value\<close>; \<open>result.data\<close> in the tests).
  \<open>flowError(code, message, cause?)\<close> builds the structured error.
\<close>

record FlowError =
  code :: jsstring
  message :: jsstring
  cause :: "JsError option"

datatype 'a FlowResult =
  isSuccess: Success (result_value: 'a)
  | Failure (result_error: FlowError)

definition success :: "'a \<Rightarrow> 'a FlowResult" where
  "success v = Success v"

definition failure :: "FlowError \<Rightarrow> 'a FlowResult" where
  "failure e = Failure e"

definition flowError :: "jsstring \<Rightarrow> jsstring \<Rightarrow> JsError option \<Rightarrow> FlowError" where
  "flowError c m e = \<lparr>code = c, message = m, cause = e\<rparr>"

section \<open>Validators\<close>

text \<open>
  An \<open>IFlowValidator<TInput, TOutput>\<close> has an identifier, a name, an optional
  description and the asynchronous operation \<open>validate(input, context)\<close>. The operation
  of an arbitrary implementation may have effects (on the context, on a spy's counter),
  so it takes the state \<open>'s\<close> of everything it can change and returns the new one with
  its outcome. The context \<open>IFlowContext\<close> belongs to the external package and is a
  type parameter \<open>'c\<close>.
\<close>

record ('i, 'o, 'c, 's) IFlowValidator =
  v_id :: jsstring
  v_name :: jsstring
  v_description :: "jsstring option"
  validate :: "'i \<Rightarrow> 'c \<Rightarrow> 's \<Rightarrow> 'o FlowResult outcome \<times> 's"

text \<open>A method whose body has no effect returns the state as it received it.\<close>

definition pureMethod :: "('i \<Rightarrow> 'c \<Rightarrow> 'o) \<Rightarrow> 'i \<Rightarrow> 'c \<Rightarrow> 's \<Rightarrow> 'o \<times> 's" where
  "pureMethod f input context s = (f input context, s)"

subsection \<open>EmailValidator\<close>

definition EmailValidator_validate ::
  "UnicodeTables \<Rightarrow> jsstring \<Rightarrow> 'c \<Rightarrow> jsstring FlowResult outcome" where
  "EmailValidator_validate U input context =
     (if regexTest emailRegex input
      then Fulfilled (success (toLowerCase U input))
      else Fulfilled (failure (flowError (js ''INVALID_EMAIL'') (js ''Invalid email format'') None)))"

definition EmailValidator :: "UnicodeTables \<Rightarrow> (jsstring, jsstring, 'c, 's) IFlowValidator" where
  "EmailValidator U =
     \<lparr>v_id = js ''email-validator'', v_name = js ''Email Validation'', v_description = None,
      validate = pureMethod (EmailValidator_validate U)\<rparr>"

subsection \<open>TestValidator\<close>

definition TestValidator_validate ::
  "UnicodeTables \<Rightarrow> jsstring \<Rightarrow> 'c \<Rightarrow> jsstring FlowResult outcome" where
  "TestValidator_validate U input context = Fulfilled (success (toUpperCase U input))"

definition TestValidator :: "UnicodeTables \<Rightarrow> (jsstring, jsstring, 'c, 's) IFlowValidator" where
  "TestValidator U =
     \<lparr>v_id = js ''test-validator'', v_name = js ''Test Validator'',
      v_description = Some (js ''A test validator''),
      validate = pureMethod (TestValidator_validate U)\<rparr>"

subsection \<open>NumberRangeValidator\<close>

text \<open>
  A TypeScript \<open>number\<close> is a double. The model leaves the type of numbers open: its
  comparison \<open>\<le>\<close> is the one of the type class \<open>ord\<close>, which has no laws (so
  a value that compares false with everything, as \<open>NaN\<close> does, is admitted), and the
  rendering of a number in a template literal is the parameter \<open>str\<close>. \<open>lo\<close> and
  \<open>hi\<close> are the constructor's \<open>min\<close> and \<open>max\<close>.
\<close>

definition NumberRangeValidator_validate ::
  "('n::ord \<Rightarrow> jsstring) \<Rightarrow> 'n \<Rightarrow> 'n \<Rightarrow> 'n \<Rightarrow> 'c \<Rightarrow> 'n FlowResult outcome" where
  "NumberRangeValidator_validate str lo hi input context =
     (if input \<ge> lo \<and> input \<le> hi
      then Fulfilled (success input)
      else Fulfilled (failure (flowError (js ''OUT_OF_RANGE'')
             (js ''Number '' @ str input @ js '' not in range '' @ str lo @ js ''-'' @ str hi)
             (Some (RangeError
                (js ''Expected '' @ str lo @ js ''-'' @ str hi @ js '', got '' @ str input))))))"

definition NumberRangeValidator ::
  "('n::ord \<Rightarrow> jsstring) \<Rightarrow> 'n \<Rightarrow> 'n \<Rightarrow> ('n, 'n, 'c, 's) IFlowValidator" where
  "NumberRangeValidator str lo hi =
     \<lparr>v_id = js ''range-'' @ str lo @ js ''-'' @ str hi,
      v_name = js ''Number Range Validator ('' @ str lo @ js ''-'' @ str hi @ js '')'',
      v_description = None,
      validate = pureMethod (NumberRangeValidator_validate str lo hi)\<rparr>"

section \<open>Conditional validators\<close>

subsection \<open>TestConditionalValidator\<close>

definition TestConditionalValidator_shouldValidate :: "jsstring \<Rightarrow> 'c \<Rightarrow> bool outcome" where
  "TestConditionalValidator_shouldValidate input context = Fulfilled (length input > 0)"

definition TestConditionalValidator_validateConditionally ::
  "jsstring \<Rightarrow> 'c \<Rightarrow> jsstring FlowResult outcome" where
  "TestConditionalValidator_validateConditionally input context =
     (case TestConditionalValidator_shouldValidate input context of
        Rejected err \<Rightarrow> Rejected err
      | Fulfilled should \<Rightarrow>
          if should then Fulfilled (success (trim input)) else Fulfilled (success input))"

subsection \<open>ConditionalEmailValidator\<close>

definition ConditionalEmailValidator_shouldValidate :: "jsstring \<Rightarrow> 'c \<Rightarrow> bool outcome" where
  "ConditionalEmailValidator_shouldValidate input context =
     Fulfilled (includes_str input (js ''@''))"

definition ConditionalEmailValidator_validateConditionally ::
  "UnicodeTables \<Rightarrow> jsstring \<Rightarrow> 'c \<Rightarrow> jsstring FlowResult outcome" where
  "ConditionalEmailValidator_validateConditionally U input context =
     (case ConditionalEmailValidator_shouldValidate input context of
        Rejected err \<Rightarrow> Rejected err
      | Fulfilled should \<Rightarrow>
          if should then EmailValidator_validate U input context
          else Fulfilled (success input))"

section \<open>Pipelines\<close>

text \<open>
  Both pipeline classes keep a private array \<open>validators\<close>, push onto it in
  \<open>addValidator\<close> and return \<open>this\<close>. Pipeline objects therefore live in a store,
  a function from references to objects, and a method takes the reference it is called
  on. The validators of a pipeline are typed \<open>IFlowValidator<any, any>\<close>: one value
  type \<open>'v\<close> for inputs and outputs. The state \<open>'s\<close> that validators change is apart
  from the store of pipeline objects.
\<close>

type_synonym ref = nat

record ('v, 'c, 's) Pipeline =
  p_id :: jsstring
  p_name :: jsstring
  validators :: "('v, 'v, 'c, 's) IFlowValidator list"

type_synonym ('v, 'c, 's) store = "ref \<Rightarrow> ('v, 'c, 's) Pipeline"

record PipelineInfo =
  validatorCount :: nat
  validatorIds :: "jsstring list"

text \<open>\<open>this.validators.push(validator)\<close> on the object behind \<open>this\<close>.\<close>

definition push_validator ::
  "ref \<Rightarrow> ('v, 'v, 'c, 's) IFlowValidator \<Rightarrow> ('v, 'c, 's) store \<Rightarrow> ('v, 'c, 's) store" where
  "push_validator this validator st =
     st(this := (st this)\<lparr>validators := validators (st this) @ [validator]\<rparr>)"

subsection \<open>StringValidationPipeline\<close>

text \<open>\<open>new StringValidationPipeline()\<close>, allocated at the reference \<open>r\<close>.\<close>

definition new_StringValidationPipeline ::
  "ref \<Rightarrow> ('v, 'c, 's) store \<Rightarrow> ref \<times> ('v, 'c, 's) store" where
  "new_StringValidationPipeline r st =
     (r, st(r := \<lparr>p_id = js ''string-pipeline'', p_name = js ''String Validation Pipeline'',
                   validators = []\<rparr>))"

definition StringValidationPipeline_addValidator ::
  "ref \<Rightarrow> ('v, 'v, 'c, 's) IFlowValidator \<Rightarrow> ('v, 'c, 's) store \<Rightarrow> ref \<times> ('v, 'c, 's) store" where
  "StringValidationPipeline_addValidator this validator st =
     (this, push_validator this validator st)"

text \<open>
  The loop of \<open>validatePipeline\<close> over \<open>this.validators\<close>, with the local variable
  \<open>current\<close>: a result that is not a success is returned as it is. Where the promise of
  a validator is rejected, the \<open>await\<close> throws and \<open>validatePipeline\<close> is rejected with
  the same error.
\<close>

fun validatePipeline_loop ::
  "('v, 'v, 'c, 's) IFlowValidator list \<Rightarrow> 'v \<Rightarrow> 'c \<Rightarrow> 's \<Rightarrow> 'v FlowResult outcome \<times> 's" where
  "validatePipeline_loop [] current context s = (Fulfilled (success current), s)"
| "validatePipeline_loop (validator # rest) current context s =
     (case validate validator current context s of
        (Rejected err, s') \<Rightarrow> (Rejected err, s')
      | (Fulfilled result, s') \<Rightarrow>
          if \<not> isSuccess result then (Fulfilled result, s')
          else validatePipeline_loop rest (result_value result) context s')"

definition StringValidationPipeline_validatePipeline ::
  "ref \<Rightarrow> 'v \<Rightarrow> 'c \<Rightarrow> ('v, 'c, 's) store \<Rightarrow> 's \<Rightarrow> 'v FlowResult outcome \<times> 's" where
  "StringValidationPipeline_validatePipeline this input context st s =
     validatePipeline_loop (validators (st this)) input context s"

definition StringValidationPipeline_getPipelineInfo ::
  "ref \<Rightarrow> ('v, 'c, 's) store \<Rightarrow> PipelineInfo" where
  "StringValidationPipeline_getPipelineInfo this st =
     \<lparr>validatorCount = length (validators (st this)),
      validatorIds = map v_id (validators (st this))\<rparr>"

subsection \<open>TestValidationPipeline\<close>

definition new_TestValidationPipeline ::
  "ref \<Rightarrow> ('v, 'c, 's) store \<Rightarrow> ref \<times> ('v, 'c, 's) store" where
  "new_TestValidationPipeline r st =
     (r, st(r := \<lparr>p_id = js ''test-pipeline'', p_name = js ''Test Pipeline'',
                   validators = []\<rparr>))"

definition TestValidationPipeline_addValidator ::
  "ref \<Rightarrow> ('v, 'v, 'c, 's) IFlowValidator \<Rightarrow> ('v, 'c, 's) store \<Rightarrow> ref \<times> ('v, 'c, 's) store" where
  "TestValidationPipeline_addValidator this validator st =
     (this, push_validator this validator st)"

definition TestValidationPipeline_validatePipeline ::
  "ref \<Rightarrow> 'v \<Rightarrow> 'c \<Rightarrow> ('v, 'c, 's) store \<Rightarrow> 's \<Rightarrow> 'v FlowResult outcome \<times> 's" where
  "TestValidationPipeline_validatePipeline this input context st s =
     (Fulfilled (success input), s)"

definition TestValidationPipeline_getPipelineInfo ::
  "ref \<Rightarrow> ('v, 'c, 's) store \<Rightarrow> PipelineInfo" where
  "TestValidationPipeline_getPipelineInfo this st =
     \<lparr>validatorCount = length (validators (st this)),
      validatorIds = map v_id (validators (st this))\<rparr>"

section \<open>The validation builder of the tests\<close>

text \<open>
  \<open>TestValidationBuilder\<close> keeps a private array \<open>rules\<close> of strings. Each fluent
  method pushes one string and returns \<open>this\<close>: the builder after the call.
\<close>

record TestValidationBuilder =
  rules :: "jsstring list"

definition new_TestValidationBuilder :: TestValidationBuilder where
  "new_TestValidationBuilder = \<lparr>rules = []\<rparr>"

definition TestValidationBuilder_required :: "TestValidationBuilder \<Rightarrow> TestValidationBuilder" where
  "TestValidationBuilder_required this = this\<lparr>rules := rules this @ [js ''required'']\<rparr>"

definition TestValidationBuilder_type ::
  "jsstring \<Rightarrow> TestValidationBuilder \<Rightarrow> TestValidationBuilder" where
  "TestValidationBuilder_type expectedType this =
     this\<lparr>rules := rules this @ [js ''type:'' @ expectedType]\<rparr>"

definition TestValidationBuilder_custom ::
  "(jsstring, 'o, 'c, 's) IFlowValidator \<Rightarrow> TestValidationBuilder \<Rightarrow> TestValidationBuilder" where
  "TestValidationBuilder_custom validator this =
     this\<lparr>rules := rules this @ [js ''custom:'' @ v_id validator]\<rparr>"

definition TestValidationBuilder_build ::
  "UnicodeTables \<Rightarrow> TestValidationBuilder \<Rightarrow> (jsstring, jsstring, 'c, 's) IFlowValidator" where
  "TestValidationBuilder_build U this = TestValidator U"

text \<open>A sequence of fluent calls, to state properties of every such sequence.\<close>

datatype ('c, 's) fluent_call =
  CallRequired | CallType jsstring | CallCustom "(jsstring, jsstring, 'c, 's) IFlowValidator"

fun declare_rule :: "('c, 's) fluent_call \<Rightarrow> TestValidationBuilder \<Rightarrow> TestValidationBuilder" where
  "declare_rule CallRequired this = TestValidationBuilder_required this"
| "declare_rule (CallType expectedType) this = TestValidationBuilder_type expectedType this"
| "declare_rule (CallCustom validator) this = TestValidationBuilder_custom validator this"

fun rule_tag :: "('c, 's) fluent_call \<Rightarrow> jsstring" where
  "rule_tag CallRequired = js ''required''"
| "rule_tag (CallType expectedType) = js ''type:'' @ expectedType"
| "rule_tag (CallCustom validator) = js ''custom:'' @ v_id validator"

section \<open>Schemas\<close>

text \<open>
  \<open>getSchemaRules(): Record<string, unknown>\<close> returns an object literal. Such values
  are modelled as JSON-like trees, an object being the list of its keys and values in
  the order of the literal. The method takes and returns the state \<open>'s\<close> of everything
  a method could change.
\<close>

datatype json =
  JString jsstring | JNumber int | JBool bool | JArray "json list"
  | JObject "(jsstring \<times> json) list"

definition TestSchema_validateSchema :: "'o \<Rightarrow> 'c \<Rightarrow> 'o FlowResult outcome" where
  "TestSchema_validateSchema input context = Fulfilled (success input)"

definition TestSchema_getSchemaRules :: "'s \<Rightarrow> (jsstring \<times> json) list \<times> 's" where
  "TestSchema_getSchemaRules s =
     ([(js ''type'', JString (js ''object'')), (js ''required'', JArray [])], s)"

definition UserSchema_validateSchema :: "'o \<Rightarrow> 'c \<Rightarrow> 'o FlowResult outcome" where
  "UserSchema_validateSchema input context = Fulfilled (success input)"

definition UserSchema_getSchemaRules :: "'s \<Rightarrow> (jsstring \<times> json) list \<times> 's" where
  "UserSchema_getSchemaRules s =
     ([(js ''type'', JString (js ''object'')),
       (js ''properties'', JObject
          [(js ''name'', JObject [(js ''type'', JString (js ''string'')),
                                 (js ''required'', JBool True)]),
           (js ''email'', JObject [(js ''type'', JString (js ''string'')),
                                  (js ''format'', JString (js ''email'')),
                                  (js ''required'', JBool True)]),
           (js ''age'', JObject [(js ''type'', JString (js ''number'')),
                                (js ''minimum'', JNumber 0),
                                (js ''maximum'', JNumber 150)])])], s)"

section \<open>The validation-result shape\<close>

record IFlowValidationRule =
  rule_id :: jsstring
  rule_name :: jsstring
  rule_type :: jsstring
  parameters :: "(jsstring \<times> json) list"
  errorMessage :: "jsstring option"

record IFlowValidationError =
  err_code :: jsstring
  err_message :: jsstring
  err_field :: "jsstring option"
  err_expected :: "json option"
  err_actual :: "json option"
  err_rule :: "IFlowValidationRule option"
  err_context :: "(jsstring \<times> json) list option"

record ResultMetadata =
  validatorId :: jsstring
  executionTime :: "int option"
  rulesApplied :: "jsstring list"

text \<open>
  \<open>IFlowValidationResult<TOutput>\<close>: \<open>isValid\<close> is a required boolean, \<open>data?\<close> an
  optional field of its own; the interface relates them in a comment only.
\<close>

record 'o IFlowValidationResult =
  isValid :: bool
  data :: "'o option"
  errors :: "IFlowValidationError list"
  warnings :: "IFlowValidationError list"
  metadata :: ResultMetadata

text \<open>The result object that the test of the result interface constructs.\<close>

definition test_result :: "jsstring IFlowValidationResult" where
  "test_result =
     \<lparr>isValid = True, data = Some (js ''validated-data''), errors = [], warnings = [],
      metadata = \<lparr>validatorId = js ''test-validator'', executionTime = Some 10,
                  rulesApplied = [js ''required'', js ''type-check'']\<rparr>\<rparr>"

text \<open>
  The property of a result value that the optional \<open>data\<close> is present exactly when
  \<open>isValid\<close> is true.
\<close>

definition data_present_iff_valid :: "'o IFlowValidationResult \<Rightarrow> bool" where
  "data_present_iff_valid r = ((data r \<noteq> None) = isValid r)"

text \<open>
  Two object literals of type \<open>IFlowValidationResult<string>\<close>:
  \<^verbatim>\<open>{ isValid: false, data: 'x', errors: [], warnings: [],
    metadata: { validatorId: 'v', rulesApplied: [] } }\<close> and
  \<^verbatim>\<open>{ isValid: true, errors: [], warnings: [],
    metadata: { validatorId: 'v', rulesApplied: [] } }\<close>.
\<close>

definition invalid_with_data :: "jsstring IFlowValidationResult" where
  "invalid_with_data =
     \<lparr>isValid = False, data = Some (js ''x''), errors = [], warnings = [],
      metadata = \<lparr>validatorId = js ''v'', executionTime = None, rulesApplied = []\<rparr>\<rparr>"

definition valid_without_data :: "jsstring IFlowValidationResult" where
  "valid_without_data =
     \<lparr>isValid = True, data = None, errors = [], warnings = [],
      metadata = \<lparr>validatorId = js ''v'', executionTime = None, rulesApplied = []\<rparr>\<rparr>"

section \<open>Example objects\<close>

text \<open>
  The examples run the validators on ASCII strings, on which the case conversions are
  fixed by \<open>asciiLower\<close> and \<open>asciiUpper\<close> and never consult the Unicode tables.
  \<open>unusedTables\<close> fills the place of the tables in the examples.
\<close>

definition unusedTables :: UnicodeTables where
  "unusedTables = \<lparr>lowerCaseOf = (\<lambda>s. s), upperCaseOf = (\<lambda>s. s)\<rparr>"

text \<open>
  The decimal digits of a natural number, as a template literal renders an integer
  below \<open>2^53\<close>, for the example of a \<open>NumberRangeValidator\<close> over natural numbers.
\<close>

fun decimal :: "nat \<Rightarrow> jsstring" where
  "decimal n =
     (if n < 10 then [0x30 + of_nat n]
      else decimal (n div 10) @ [0x30 + of_nat (n mod 10)])"

text \<open>
  A spy in the sense of the spec: a validator that accepts its input as it is and counts
  its invocations in the state.
\<close>

definition spyValidator :: "('v, 'v, 'c, nat) IFlowValidator" where
  "spyValidator =
     \<lparr>v_id = js ''spy'', v_name = js ''Spy'', v_description = None,
      validate = (\<lambda>input context n. (Fulfilled (success input), Suc n))\<rparr>"

text \<open>A store with nothing allocated: every reference holds an object with no fields set.\<close>

definition emptyStore :: "('v, 'c, 's) store" where
  "emptyStore = (\<lambda>r. \<lparr>p_id = [], p_name = [], validators = []\<rparr>)"

text \<open>
  \<open>new StringValidationPipeline().addValidator(new TestValidator())
  .addValidator(new EmailValidator()).addValidator(spy)\<close>, the pipeline at reference 0.
\<close>

definition spiedStore :: "(jsstring, unit, nat) store" where
  "spiedStore =
     snd (StringValidationPipeline_addValidator 0 spyValidator
       (snd (StringValidationPipeline_addValidator 0 (EmailValidator unusedTables)
         (snd (StringValidationPipeline_addValidator 0 (TestValidator unusedTables)
           (snd (new_StringValidationPipeline 0 emptyStore)))))))"

text \<open>
  The pipeline of the test of the pipeline interface,
  \<open>new TestValidationPipeline()\<close> with \<open>addValidator(new TestValidator())\<close>, at
  reference 0.
\<close>

definition testStore :: "(jsstring, unit, nat) store" where
  "testStore =
     snd (TestValidationPipeline_addValidator 0 (TestValidator unusedTables)
       (snd (new_TestValidationPipeline 0 emptyStore)))"

text \<open>\<open>new TestValidationPipeline().addValidator(new EmailValidator())\<close> at reference 0.\<close>

definition stubStore :: "(jsstring, unit, nat) store" where
  "stubStore =
     snd (TestValidationPipeline_addValidator 0 (EmailValidator unusedTables)
       (snd (new_TestValidationPipeline 0 emptyStore)))"

declare decimal.simps [simp del]

section \<open>Evaluation and helper lemmas\<close>

lemmas string_defs =
  js_def toUpperCase_def toLowerCase_def isAscii_def asciiLower_def asciiUpper_def
  trim_def isWhiteSpace_def emailRegex_def

lemmas result_defs = success_def failure_def flowError_def pureMethod_def

text \<open>On a string of ASCII code units the case conversions do not depend on the tables.\<close>

lemma toUpperCase_ascii:
  "list_all isAscii s \<Longrightarrow> toUpperCase U s = map asciiUpper s"
  by (simp add: toUpperCase_def)

lemma toLowerCase_ascii:
  "list_all isAscii s \<Longrightarrow> toLowerCase U s = map asciiLower s"
  by (simp add: toLowerCase_def)

lemma tables_unused_on_ascii:
  "list_all isAscii s \<Longrightarrow>
     toUpperCase U s = toUpperCase unusedTables s \<and> toLowerCase U s = toLowerCase unusedTables s"
  by (simp add: toUpperCase_def toLowerCase_def)

text \<open>
  Beyond ASCII: the no-break space U+00A0 is white space for the regular expression, and
  the upper case of the letter U+00E9 is what the Unicode tables give.
\<close>

lemma EmailValidator_rejects_no_break_space:
  "EmailValidator_validate U (js ''a'' @ [0xA0] @ js ''b@c.d'') c
     = Fulfilled (Failure \<lparr>code = js ''INVALID_EMAIL'', message = js ''Invalid email format'',
                            cause = None\<rparr>)"
  by (simp add: EmailValidator_validate_def result_defs string_defs)

lemma TestValidator_beyond_ascii:
  "TestValidator_validate U [0xE9] c = Fulfilled (Success (upperCaseOf U [0xE9]))"
  by (simp add: TestValidator_validate_def result_defs string_defs)

lemma validatePipeline_loop_append:
  "validatePipeline_loop (vs @ ws) x c s =
     (case validatePipeline_loop vs x c s of
        (Fulfilled (Success y), s') \<Rightarrow> validatePipeline_loop ws y c s'
      | (Fulfilled (Failure e), s') \<Rightarrow> (Fulfilled (Failure e), s')
      | (Rejected err, s') \<Rightarrow> (Rejected err, s'))"
proof (induction vs arbitrary: x s)
  case Nil
  show ?case by (simp add: success_def)
next
  case (Cons v vs)
  obtain out s1 where step: "validate v x c s = (out, s1)"
    by (cases "validate v x c s")
  show ?case
  proof (cases out)
    case (Rejected err)
    with step show ?thesis by simp
  next
    case (Fulfilled r)
    show ?thesis
    proof (cases r)
      case (Success y)
      with step Fulfilled Cons show ?thesis by simp
    next
      case (Failure e)
      with step Fulfilled show ?thesis by simp
    qed
  qed
qed

lemma validatePipeline_loop_single:
  "validatePipeline_loop [v] y c s = validate v y c s"
proof -
  obtain out s1 where step: "validate v y c s = (out, s1)"
    by (cases "validate v y c s")
  show ?thesis
  proof (cases out)
    case (Rejected err)
    with step show ?thesis by simp
  next
    case (Fulfilled r)
    with step show ?thesis by (cases r) (simp_all add: success_def)
  qed
qed

lemma validators_push_validator [simp]:
  "validators (push_validator this v st this) = validators (st this) @ [v]"
  by (simp add: push_validator_def)

lemma push_validator_other:
  "r \<noteq> this \<Longrightarrow> push_validator this v st r = st r"
  by (simp add: push_validator_def)

lemma EmailValidator_rejects_X:
  "validate (EmailValidator U) (js ''X'') () (0::nat)
     = (Fulfilled (Failure \<lparr>code = js ''INVALID_EMAIL'', message = js ''Invalid email format'',
                             cause = None\<rparr>), 0)"
  by (simp add: EmailValidator_def EmailValidator_validate_def result_defs string_defs)

lemma rules_fold_declare_rule:
  "rules (fold declare_rule calls this) = rules this @ map rule_tag calls"
proof (induction calls arbitrary: this)
  case Nil
  show ?case by simp
next
  case (Cons call calls)
  have "rules (declare_rule call this) = rules this @ [rule_tag call]"
    by (cases call)
      (simp_all add: TestValidationBuilder_required_def TestValidationBuilder_type_def
        TestValidationBuilder_custom_def)
  with Cons show ?case by simp
qed

section \<open>Execution of a pipeline\<close>

text \<open>
  C1 (as amended). \<open>StringValidationPipeline.validatePipeline\<close> runs the attached
  validators in attachment order and feeds each success output to the next validator:
  on a pipeline just constructed it returns success with the input; on a pipeline to
  which \<open>v\<close> was added last it is the run of the pipeline before the addition, and then,
  if that run succeeded with \<open>y\<close>, the outcome of \<open>v\<close> on \<open>y\<close>, success or failure,
  and otherwise the earlier failure (or rejection) with no call of \<open>v\<close>. If the
  validators are \<open>pre @ v # rest\<close>, all of \<open>pre\<close> succeed and \<open>v\<close> fails, the pipeline
  returns the failure of \<open>v\<close> and the state that \<open>v\<close> left, whatever \<open>rest\<close> is: no
  validator of \<open>rest\<close> is invoked. \<open>TestValidationPipeline.validatePipeline\<close> invokes no
  validator and returns success with its input.
\<close>

theorem StringValidationPipeline_runs_in_order:
  "StringValidationPipeline_validatePipeline r x c (snd (new_StringValidationPipeline r st)) s
     = (Fulfilled (Success x), s)
   \<and> StringValidationPipeline_validatePipeline this x c
        (snd (StringValidationPipeline_addValidator this v st)) s
     = (case StringValidationPipeline_validatePipeline this x c st s of
          (Fulfilled (Success y), s') \<Rightarrow> validate v y c s'
        | (Fulfilled (Failure e), s') \<Rightarrow> (Fulfilled (Failure e), s')
        | (Rejected err, s') \<Rightarrow> (Rejected err, s'))
   \<and> (validators (st this) = pre @ v # rest
        \<and> validatePipeline_loop pre x c s = (Fulfilled (Success y), s1)
        \<and> validate v y c s1 = (Fulfilled (Failure e), s2)
      \<longrightarrow> StringValidationPipeline_validatePipeline this x c st s = (Fulfilled (Failure e), s2))
   \<and> TestValidationPipeline_validatePipeline this x c st s = (Fulfilled (Success x), s)"
proof (intro conjI impI)
  show "StringValidationPipeline_validatePipeline r x c (snd (new_StringValidationPipeline r st)) s
     = (Fulfilled (Success x), s)"
    by (simp add: StringValidationPipeline_validatePipeline_def new_StringValidationPipeline_def
        success_def)
next
  show "StringValidationPipeline_validatePipeline this x c
        (snd (StringValidationPipeline_addValidator this v st)) s
     = (case StringValidationPipeline_validatePipeline this x c st s of
          (Fulfilled (Success y), s') \<Rightarrow> validate v y c s'
        | (Fulfilled (Failure e), s') \<Rightarrow> (Fulfilled (Failure e), s')
        | (Rejected err, s') \<Rightarrow> (Rejected err, s'))"
    by (simp add: StringValidationPipeline_validatePipeline_def
        StringValidationPipeline_addValidator_def validatePipeline_loop_append
        validatePipeline_loop_single del: validatePipeline_loop.simps
        split: prod.split outcome.split FlowResult.split)
next
  assume h: "validators (st this) = pre @ v # rest
        \<and> validatePipeline_loop pre x c s = (Fulfilled (Success y), s1)
        \<and> validate v y c s1 = (Fulfilled (Failure e), s2)"
  then show "StringValidationPipeline_validatePipeline this x c st s
      = (Fulfilled (Failure e), s2)"
    by (simp add: StringValidationPipeline_validatePipeline_def validatePipeline_loop_append)
next
  show "TestValidationPipeline_validatePipeline this x c st s = (Fulfilled (Success x), s)"
    by (simp add: TestValidationPipeline_validatePipeline_def success_def)
qed

text \<open>
  The theorem at the pipeline \<open>[TestValidator, EmailValidator, spy]\<close> and the input
  \<open>"x"\<close>: the first validator yields \<open>"X"\<close>, the second rejects it, and the spy's
  counter is still 0 at the end.
\<close>

theorem StringValidationPipeline_runs_in_order_witness:
  "StringValidationPipeline_validatePipeline 0 (js ''x'') () spiedStore 0
     = (Fulfilled (Failure \<lparr>code = js ''INVALID_EMAIL'', message = js ''Invalid email format'',
                             cause = None\<rparr>), 0)"
proof -
  have a: "validators (spiedStore 0)
      = [TestValidator unusedTables] @ EmailValidator unusedTables # [spyValidator]"
    by (simp add: spiedStore_def StringValidationPipeline_addValidator_def
        new_StringValidationPipeline_def)
  have b: "validatePipeline_loop [TestValidator unusedTables] (js ''x'') () (0::nat)
      = (Fulfilled (Success (js ''X'')), 0)"
    by (simp add: TestValidator_def TestValidator_validate_def result_defs string_defs)
  from StringValidationPipeline_runs_in_order
    [where this = 0 and x = "js ''x''" and c = "()" and st = spiedStore and s = "0::nat"
      and pre = "[TestValidator unusedTables]" and v = "EmailValidator unusedTables"
      and rest = "[spyValidator]" and y = "js ''X''" and ?s1.0 = 0 and ?s2.0 = 0
      and e = "\<lparr>code = js ''INVALID_EMAIL'', message = js ''Invalid email format'',
                cause = None\<rparr>"]
    a b EmailValidator_rejects_X [of unusedTables] show ?thesis
    by blast
qed

text \<open>
  C1 as stated, for every pipeline implementation, fails on \<open>TestValidationPipeline\<close>.
  In the test's own pipeline, with \<open>TestValidator\<close> attached and the input \<open>"test"\<close>,
  the last validator's output is \<open>"TEST"\<close> and \<open>validatePipeline\<close> returns success
  with \<open>"test"\<close>. With \<open>EmailValidator\<close> as the only validator, the validator returns
  a failure on \<open>"test"\<close> and \<open>validatePipeline\<close> returns success with \<open>"test"\<close>.
\<close>

theorem TestValidationPipeline_ignores_validators:
  "validators (testStore 0) = [TestValidator unusedTables]
   \<and> validate (TestValidator unusedTables) (js ''test'') () (0::nat)
       = (Fulfilled (Success (js ''TEST'')), 0)
   \<and> TestValidationPipeline_validatePipeline 0 (js ''test'') () testStore 0
       = (Fulfilled (Success (js ''test'')), 0)
   \<and> validators (stubStore 0) = [EmailValidator unusedTables]
   \<and> validate (EmailValidator unusedTables) (js ''test'') () (0::nat)
       = (Fulfilled (Failure \<lparr>code = js ''INVALID_EMAIL'', message = js ''Invalid email format'',
                               cause = None\<rparr>), 0)
   \<and> TestValidationPipeline_validatePipeline 0 (js ''test'') () stubStore 0
       = (Fulfilled (Success (js ''test'')), 0)"
  by (simp add: TestValidationPipeline_validatePipeline_def stubStore_def testStore_def
      TestValidationPipeline_addValidator_def new_TestValidationPipeline_def emptyStore_def
      EmailValidator_def EmailValidator_validate_def TestValidator_def
      TestValidator_validate_def result_defs string_defs)

section \<open>Conditional validation\<close>

text \<open>
  C2. For both conditional validators of the repository and every input and context:
  where the predicate \<open>shouldValidate\<close> is false, \<open>validateConditionally\<close> returns
  success with the input unchanged; where it is true, it returns the result of the
  wrapped validation (the trimmed input for \<open>TestConditionalValidator\<close>, the result of
  \<open>EmailValidator.validate\<close> for \<open>ConditionalEmailValidator\<close>). The predicate of
  \<open>TestConditionalValidator\<close> is false on the empty string and true otherwise;
  validating \<open>""\<close> returns success with \<open>""\<close>, validating \<open>" x "\<close> returns success
  with \<open>"x"\<close>, and so does validating \<open>"x"\<close> between two no-break spaces (U+00A0).
\<close>

theorem validateConditionally_follows_predicate:
  "TestConditionalValidator_validateConditionally input c =
     (if TestConditionalValidator_shouldValidate input c = Fulfilled True
      then Fulfilled (Success (trim input))
      else Fulfilled (Success input))
   \<and> ConditionalEmailValidator_validateConditionally U input c =
     (if ConditionalEmailValidator_shouldValidate input c = Fulfilled True
      then EmailValidator_validate U input c
      else Fulfilled (Success input))
   \<and> TestConditionalValidator_shouldValidate input c = Fulfilled (input \<noteq> [])
   \<and> ConditionalEmailValidator_shouldValidate input c = Fulfilled (includes_str input (js ''@''))
   \<and> TestConditionalValidator_validateConditionally (js '''') c = Fulfilled (Success (js ''''))
   \<and> TestConditionalValidator_validateConditionally (js '' x '') c
       = Fulfilled (Success (js ''x''))
   \<and> TestConditionalValidator_validateConditionally ([0xA0] @ js ''x'' @ [0xA0]) c
       = Fulfilled (Success (js ''x''))"
  by (simp add: TestConditionalValidator_validateConditionally_def
      TestConditionalValidator_shouldValidate_def
      ConditionalEmailValidator_validateConditionally_def
      ConditionalEmailValidator_shouldValidate_def success_def string_defs)

section \<open>The builder\<close>

text \<open>
  C3 (as amended). For every sequence of fluent calls, \<open>TestValidationBuilder\<close> holds
  one rule string for each call, in call order (\<open>required\<close>, \<open>type:\<close> and the type
  name, \<open>custom:\<close> and the validator's id), so after \<open>required().type("string")\<close> its
  rules are \<open>["required", "type:string"]\<close>; \<open>build()\<close> returns a \<open>TestValidator\<close>
  whatever the rules are, the same validator as for a builder with no rule.
\<close>

theorem TestValidationBuilder_records_rules:
  "rules (fold declare_rule calls this) = rules this @ map rule_tag calls
   \<and> rules (fold declare_rule calls new_TestValidationBuilder) = map rule_tag calls
   \<and> rules (TestValidationBuilder_type (js ''string'')
        (TestValidationBuilder_required new_TestValidationBuilder))
       = [js ''required'', js ''type:string'']
   \<and> TestValidationBuilder_build U (fold declare_rule calls this) = TestValidator U
   \<and> TestValidationBuilder_build U this = TestValidationBuilder_build U new_TestValidationBuilder"
  by (simp add: rules_fold_declare_rule new_TestValidationBuilder_def
      TestValidationBuilder_build_def TestValidationBuilder_required_def
      TestValidationBuilder_type_def js_def)

text \<open>
  C3 as stated fails: after \<open>custom(new EmailValidator())\<close> the rule
  \<open>custom:email-validator\<close> is declared and \<open>EmailValidator\<close> rejects \<open>"x"\<close>, but the
  built validator accepts \<open>"x"\<close> and returns \<open>"X"\<close>: the declared rule is dropped. The
  validator built after \<open>required().type("string")\<close> accepts the empty string.
\<close>

theorem TestValidationBuilder_build_drops_rules:
  "rules (TestValidationBuilder_custom
            (EmailValidator unusedTables :: (jsstring, jsstring, unit, nat) IFlowValidator)
            new_TestValidationBuilder) = [js ''custom:email-validator'']
   \<and> validate (EmailValidator unusedTables) (js ''x'') () (0::nat)
       = (Fulfilled (Failure \<lparr>code = js ''INVALID_EMAIL'', message = js ''Invalid email format'',
                               cause = None\<rparr>), 0)
   \<and> validate (TestValidationBuilder_build unusedTables
         (TestValidationBuilder_custom
            (EmailValidator unusedTables :: (jsstring, jsstring, unit, nat) IFlowValidator)
            new_TestValidationBuilder)) (js ''x'') () (0::nat)
       = (Fulfilled (Success (js ''X'')), 0)
   \<and> validate (TestValidationBuilder_build unusedTables
         (TestValidationBuilder_type (js ''string'')
            (TestValidationBuilder_required new_TestValidationBuilder))) (js '''') () (0::nat)
       = (Fulfilled (Success (js '''')), 0)"
  by (simp add: TestValidationBuilder_custom_def new_TestValidationBuilder_def
      TestValidationBuilder_build_def EmailValidator_def EmailValidator_validate_def
      TestValidator_def TestValidator_validate_def result_defs string_defs)

section \<open>Introspection of a pipeline\<close>

text \<open>
  C4. For both pipeline classes: \<open>getPipelineInfo()\<close> after \<open>addValidator(v)\<close> shows the
  count of before plus one and the identifiers of before with the id of \<open>v\<close> appended
  at the end; a pipeline just constructed has count 0 and no identifiers; after adding
  \<open>a\<close> and then \<open>b\<close> to it, the count is 2 and the identifiers are those of \<open>a\<close> and
  \<open>b\<close> in this order.
\<close>

theorem getPipelineInfo_reflects_addValidator:
  "StringValidationPipeline_getPipelineInfo this
      (snd (StringValidationPipeline_addValidator this v st))
     = \<lparr>validatorCount = validatorCount (StringValidationPipeline_getPipelineInfo this st) + 1,
        validatorIds = validatorIds (StringValidationPipeline_getPipelineInfo this st) @ [v_id v]\<rparr>
   \<and> StringValidationPipeline_getPipelineInfo r (snd (new_StringValidationPipeline r st))
     = \<lparr>validatorCount = 0, validatorIds = []\<rparr>
   \<and> StringValidationPipeline_getPipelineInfo r
        (snd (StringValidationPipeline_addValidator r b
          (snd (StringValidationPipeline_addValidator r a
            (snd (new_StringValidationPipeline r st))))))
     = \<lparr>validatorCount = 2, validatorIds = [v_id a, v_id b]\<rparr>
   \<and> TestValidationPipeline_getPipelineInfo this
      (snd (TestValidationPipeline_addValidator this v st))
     = \<lparr>validatorCount = validatorCount (TestValidationPipeline_getPipelineInfo this st) + 1,
        validatorIds = validatorIds (TestValidationPipeline_getPipelineInfo this st) @ [v_id v]\<rparr>
   \<and> TestValidationPipeline_getPipelineInfo r (snd (new_TestValidationPipeline r st))
     = \<lparr>validatorCount = 0, validatorIds = []\<rparr>
   \<and> TestValidationPipeline_getPipelineInfo r
        (snd (TestValidationPipeline_addValidator r b
          (snd (TestValidationPipeline_addValidator r a
            (snd (new_TestValidationPipeline r st))))))
     = \<lparr>validatorCount = 2, validatorIds = [v_id a, v_id b]\<rparr>"
  by (simp add: StringValidationPipeline_getPipelineInfo_def
      StringValidationPipeline_addValidator_def new_StringValidationPipeline_def
      TestValidationPipeline_getPipelineInfo_def
      TestValidationPipeline_addValidator_def new_TestValidationPipeline_def)

section \<open>The reference returned by addValidator\<close>

text \<open>
  C9. For both pipeline classes, \<open>addValidator\<close> returns the reference it was called on,
  and the validator is appended to the object behind it: a validator added through the
  returned reference shows in \<open>getPipelineInfo()\<close> of the original reference, and
  one added through the original reference shows in \<open>getPipelineInfo()\<close> of the
  returned one. The object behind any other reference is left as it was.
\<close>

theorem addValidator_returns_receiver:
  "fst (StringValidationPipeline_addValidator this v st) = this
   \<and> StringValidationPipeline_getPipelineInfo this
        (snd (StringValidationPipeline_addValidator
               (fst (StringValidationPipeline_addValidator this v st)) w
               (snd (StringValidationPipeline_addValidator this v st))))
     = \<lparr>validatorCount = length (validators (st this)) + 2,
        validatorIds = map v_id (validators (st this)) @ [v_id v, v_id w]\<rparr>
   \<and> StringValidationPipeline_getPipelineInfo
        (fst (StringValidationPipeline_addValidator this v st))
        (snd (StringValidationPipeline_addValidator this w
               (snd (StringValidationPipeline_addValidator this v st))))
     = \<lparr>validatorCount = length (validators (st this)) + 2,
        validatorIds = map v_id (validators (st this)) @ [v_id v, v_id w]\<rparr>
   \<and> (r \<noteq> this \<longrightarrow> snd (StringValidationPipeline_addValidator this v st) r = st r)
   \<and> fst (TestValidationPipeline_addValidator this v st) = this
   \<and> TestValidationPipeline_getPipelineInfo this
        (snd (TestValidationPipeline_addValidator
               (fst (TestValidationPipeline_addValidator this v st)) w
               (snd (TestValidationPipeline_addValidator this v st))))
     = \<lparr>validatorCount = length (validators (st this)) + 2,
        validatorIds = map v_id (validators (st this)) @ [v_id v, v_id w]\<rparr>
   \<and> TestValidationPipeline_getPipelineInfo
        (fst (TestValidationPipeline_addValidator this v st))
        (snd (TestValidationPipeline_addValidator this w
               (snd (TestValidationPipeline_addValidator this v st))))
     = \<lparr>validatorCount = length (validators (st this)) + 2,
        validatorIds = map v_id (validators (st this)) @ [v_id v, v_id w]\<rparr>
   \<and> (r \<noteq> this \<longrightarrow> snd (TestValidationPipeline_addValidator this v st) r = st r)"
  by (simp add: StringValidationPipeline_getPipelineInfo_def
      StringValidationPipeline_addValidator_def
      TestValidationPipeline_getPipelineInfo_def
      TestValidationPipeline_addValidator_def push_validator_other)

text \<open>
  The theorem at the pipeline of reference 0 that holds \<open>EmailValidator\<close>, to which
  \<open>TestValidator\<close> and then, through the returned reference, the spy are added; reference
  1 is another object.
\<close>

theorem addValidator_returns_receiver_witness:
  "fst (TestValidationPipeline_addValidator 0 (TestValidator unusedTables) stubStore) = 0
   \<and> TestValidationPipeline_getPipelineInfo 0
        (snd (TestValidationPipeline_addValidator
               (fst (TestValidationPipeline_addValidator 0 (TestValidator unusedTables) stubStore))
               spyValidator
               (snd (TestValidationPipeline_addValidator 0 (TestValidator unusedTables) stubStore))))
     = \<lparr>validatorCount = 3,
        validatorIds = [js ''email-validator'', js ''test-validator'', js ''spy'']\<rparr>
   \<and> snd (TestValidationPipeline_addValidator 0 (TestValidator unusedTables) stubStore) 1
       = stubStore 1
   \<and> snd (StringValidationPipeline_addValidator 0 (TestValidator unusedTables) stubStore) 1
       = stubStore 1"
proof -
  have a: "validators (stubStore 0) = [EmailValidator unusedTables]"
    by (simp add: stubStore_def TestValidationPipeline_addValidator_def
        new_TestValidationPipeline_def)
  have b: "(1::nat) \<noteq> 0"
    by simp
  have ids:
    "v_id (EmailValidator unusedTables :: (jsstring, jsstring, unit, nat) IFlowValidator)
       = js ''email-validator''"
    "v_id (TestValidator unusedTables :: (jsstring, jsstring, unit, nat) IFlowValidator)
       = js ''test-validator''"
    "v_id (spyValidator :: (jsstring, jsstring, unit, nat) IFlowValidator) = js ''spy''"
    by (simp_all add: EmailValidator_def TestValidator_def spyValidator_def)
  note t = addValidator_returns_receiver
    [where this = 0 and r = 1 and st = stubStore and v = "TestValidator unusedTables"
      and w = spyValidator]
  from t have ret:
    "fst (TestValidationPipeline_addValidator 0 (TestValidator unusedTables) stubStore) = 0"
    by blast
  from t have info: "TestValidationPipeline_getPipelineInfo 0
        (snd (TestValidationPipeline_addValidator
               (fst (TestValidationPipeline_addValidator 0 (TestValidator unusedTables) stubStore))
               spyValidator
               (snd (TestValidationPipeline_addValidator 0 (TestValidator unusedTables) stubStore))))
     = \<lparr>validatorCount = length (validators (stubStore 0)) + 2,
        validatorIds = map v_id (validators (stubStore 0))
          @ [v_id (TestValidator unusedTables :: (jsstring, jsstring, unit, nat) IFlowValidator),
             v_id (spyValidator :: (jsstring, jsstring, unit, nat) IFlowValidator)]\<rparr>"
    by blast
  from t b have other:
    "snd (TestValidationPipeline_addValidator 0 (TestValidator unusedTables) stubStore) 1
       = stubStore 1"
    "snd (StringValidationPipeline_addValidator 0 (TestValidator unusedTables) stubStore) 1
       = stubStore 1"
    by blast+
  from ret other info [unfolded ret] show ?thesis
    by (simp add: a ids)
qed

section \<open>The concrete validators\<close>

text \<open>
  C5. For each concrete validator of the repository (\<open>EmailValidator\<close>,
  \<open>NumberRangeValidator\<close>, \<open>TestValidator\<close>) and every input and context, the promise of
  \<open>validate\<close> is fulfilled and never rejected, also where the input is invalid, and the
  value it is fulfilled with is a success with an output or a failure with a structured
  error according to the input: \<open>EmailValidator\<close> gives success with the input in lower
  case where the regular expression matches and the failure \<open>INVALID_EMAIL\<close> where it
  does not; \<open>NumberRangeValidator\<close> gives success with the input where it is in the range
  and the failure \<open>OUT_OF_RANGE\<close>, with its message and a \<open>RangeError\<close> as its cause,
  where it is not; \<open>TestValidator\<close> gives success with the input in upper case. That a
  result is not a success and a failure at once is the result convention of the
  external package.
\<close>

theorem validate_fulfils_with_success_or_failure:
  "(\<exists>r. EmailValidator_validate U input c = Fulfilled r)
   \<and> (regexTest emailRegex input \<longrightarrow>
        EmailValidator_validate U input c = Fulfilled (Success (toLowerCase U input)))
   \<and> (\<not> regexTest emailRegex input \<longrightarrow>
        EmailValidator_validate U input c
          = Fulfilled (Failure \<lparr>code = js ''INVALID_EMAIL'',
                                 message = js ''Invalid email format'', cause = None\<rparr>))
   \<and> (\<exists>r. NumberRangeValidator_validate str lo hi n c = Fulfilled r)
   \<and> (lo \<le> n \<and> n \<le> hi \<longrightarrow>
        NumberRangeValidator_validate str lo hi n c = Fulfilled (Success n))
   \<and> (\<not> (lo \<le> n \<and> n \<le> hi) \<longrightarrow>
        NumberRangeValidator_validate str lo hi n c
          = Fulfilled (Failure
              \<lparr>code = js ''OUT_OF_RANGE'',
               message = js ''Number '' @ str n @ js '' not in range '' @ str lo @ js ''-'' @ str hi,
               cause = Some (RangeError
                 (js ''Expected '' @ str lo @ js ''-'' @ str hi @ js '', got '' @ str n))\<rparr>))
   \<and> TestValidator_validate U input c = Fulfilled (Success (toUpperCase U input))"
  by (simp add: EmailValidator_validate_def NumberRangeValidator_validate_def
      TestValidator_validate_def success_def failure_def flowError_def)

text \<open>
  The theorem at a valid and an invalid e-mail address, and at the range from 18 to 120
  with the numbers 30 and 150.
\<close>

theorem validate_fulfils_with_success_or_failure_witness:
  "EmailValidator_validate unusedTables (js ''A@b.c'') () = Fulfilled (Success (js ''a@b.c''))
   \<and> EmailValidator_validate unusedTables (js ''x'') ()
       = Fulfilled (Failure \<lparr>code = js ''INVALID_EMAIL'',
                              message = js ''Invalid email format'', cause = None\<rparr>)
   \<and> NumberRangeValidator_validate decimal 18 120 (30::nat) () = Fulfilled (Success 30)
   \<and> NumberRangeValidator_validate decimal 18 120 (150::nat) ()
       = Fulfilled (Failure
           \<lparr>code = js ''OUT_OF_RANGE'', message = js ''Number 150 not in range 18-120'',
            cause = Some (RangeError (js ''Expected 18-120, got 150''))\<rparr>)"
proof -
  have valid: "regexTest emailRegex (js ''A@b.c'')"
    by (simp add: string_defs)
  have lower: "toLowerCase unusedTables (js ''A@b.c'') = js ''a@b.c''"
    by (simp add: string_defs)
  have invalid: "\<not> regexTest emailRegex (js ''x'')"
    by (simp add: string_defs)
  have inside: "(18::nat) \<le> 30 \<and> (30::nat) \<le> 120"
    by simp
  have outside: "\<not> ((18::nat) \<le> 150 \<and> (150::nat) \<le> 120)"
    by simp
  have digits: "decimal 18 = js ''18''" "decimal 120 = js ''120''" "decimal 150 = js ''150''"
    by (simp_all add: decimal.simps js_def)
  from validate_fulfils_with_success_or_failure
    [where U = unusedTables and input = "js ''A@b.c''" and c = "()"
      and str = decimal and lo = 18 and hi = 120 and n = "30::nat"] valid lower
  have c1: "EmailValidator_validate unusedTables (js ''A@b.c'') ()
      = Fulfilled (Success (js ''a@b.c''))"
    by simp
  from validate_fulfils_with_success_or_failure
    [where U = unusedTables and input = "js ''x''" and c = "()"
      and str = decimal and lo = 18 and hi = 120 and n = "30::nat"] invalid
  have c2: "EmailValidator_validate unusedTables (js ''x'') ()
       = Fulfilled (Failure \<lparr>code = js ''INVALID_EMAIL'',
                              message = js ''Invalid email format'', cause = None\<rparr>)"
    by blast
  from validate_fulfils_with_success_or_failure
    [where U = unusedTables and input = "js ''x''" and c = "()"
      and str = decimal and lo = 18 and hi = 120 and n = "30::nat"] inside
  have c3: "NumberRangeValidator_validate decimal 18 120 (30::nat) () = Fulfilled (Success 30)"
    by blast
  from validate_fulfils_with_success_or_failure
    [where U = unusedTables and input = "js ''x''" and c = "()"
      and str = decimal and lo = 18 and hi = 120 and n = "150::nat"] outside
  have "NumberRangeValidator_validate decimal 18 120 (150::nat) ()
          = Fulfilled (Failure
              \<lparr>code = js ''OUT_OF_RANGE'',
               message = js ''Number '' @ decimal 150 @ js '' not in range '' @ decimal 18
                 @ js ''-'' @ decimal 120,
               cause = Some (RangeError
                 (js ''Expected '' @ decimal 18 @ js ''-'' @ decimal 120 @ js '', got ''
                   @ decimal 150))\<rparr>)"
    by blast
  then have c4: "NumberRangeValidator_validate decimal 18 120 (150::nat) ()
       = Fulfilled (Failure
           \<lparr>code = js ''OUT_OF_RANGE'', message = js ''Number 150 not in range 18-120'',
            cause = Some (RangeError (js ''Expected 18-120, got 150''))\<rparr>)"
    by (simp add: digits js_def)
  from c1 c2 c3 c4 show ?thesis
    by simp
qed

text \<open>
  C10. For \<open>EmailValidator\<close>, \<open>NumberRangeValidator\<close> and \<open>TestValidator\<close>, every input
  and any two contexts \<open>c1\<close> and \<open>c2\<close>: \<open>validate(input, c1)\<close> and
  \<open>validate(input, c2)\<close> return equal results, and leave the state as it was.
\<close>

theorem validate_independent_of_context:
  "validate (EmailValidator U) input c1 s = validate (EmailValidator U) input c2 s
   \<and> validate (NumberRangeValidator str lo hi) n c1 s
       = validate (NumberRangeValidator str lo hi) n c2 s
   \<and> validate (TestValidator U) input c1 s = validate (TestValidator U) input c2 s
   \<and> snd (validate (EmailValidator U) input c1 s) = s
   \<and> snd (validate (NumberRangeValidator str lo hi) n c1 s) = s
   \<and> snd (validate (TestValidator U) input c1 s) = s
   \<and> EmailValidator_validate U input c1 = EmailValidator_validate U input c2
   \<and> NumberRangeValidator_validate str lo hi n c1 = NumberRangeValidator_validate str lo hi n c2
   \<and> TestValidator_validate U input c1 = TestValidator_validate U input c2"
  by (simp add: EmailValidator_def NumberRangeValidator_def TestValidator_def pureMethod_def
      EmailValidator_validate_def NumberRangeValidator_validate_def TestValidator_validate_def)

section \<open>The validation-result shape and the schema rules\<close>

text \<open>
  C6 (as amended). The result value that the repository constructs has \<open>isValid\<close> true
  and its \<open>data\<close> present, and so has any result whose \<open>isValid\<close> is set to true and
  whose \<open>data\<close> is set; a result with \<open>isValid\<close> false and no \<open>data\<close> has the property
  too. The shape itself does not relate the two fields.
\<close>

theorem test_result_data_present_and_valid:
  "data_present_iff_valid test_result
   \<and> isValid test_result \<and> data test_result = Some (js ''validated-data'')
   \<and> data_present_iff_valid (r\<lparr>isValid := True, data := Some d\<rparr>)
   \<and> data_present_iff_valid (r\<lparr>isValid := False, data := None\<rparr>)"
  by (simp add: data_present_iff_valid_def test_result_def)

text \<open>
  C6 as stated, for every value of the shape, fails: \<open>isValid\<close> and \<open>data?\<close> are
  independent fields of the interface, so the object with \<open>isValid: false\<close> and a
  \<open>data\<close>, and the object with \<open>isValid: true\<close> and no \<open>data\<close>, are values of the shape.
\<close>

theorem result_shape_admits_data_without_valid:
  "\<not> data_present_iff_valid invalid_with_data \<and> \<not> data_present_iff_valid valid_without_data"
  by (simp add: data_present_iff_valid_def invalid_with_data_def valid_without_data_def)

text \<open>
  C7. For both schema classes, \<open>getSchemaRules()\<close> leaves the state as it was and
  returns the same mapping from string keys to values at every call, whatever the
  state: for \<open>TestSchema\<close> the mapping of \<open>type\<close> to \<open>"object"\<close> and of \<open>required\<close> to the
  empty array. Each call evaluates the object literal anew; the mappings are the same
  in content.
\<close>

theorem getSchemaRules_pure:
  "snd (TestSchema_getSchemaRules s) = s
   \<and> fst (TestSchema_getSchemaRules s) = fst (TestSchema_getSchemaRules s')
   \<and> fst (TestSchema_getSchemaRules (snd (TestSchema_getSchemaRules s)))
       = fst (TestSchema_getSchemaRules s)
   \<and> fst (TestSchema_getSchemaRules s)
       = [(js ''type'', JString (js ''object'')), (js ''required'', JArray [])]
   \<and> map_of (fst (TestSchema_getSchemaRules s)) (js ''type'') = Some (JString (js ''object''))
   \<and> snd (UserSchema_getSchemaRules s) = s
   \<and> fst (UserSchema_getSchemaRules s) = fst (UserSchema_getSchemaRules s')
   \<and> fst (UserSchema_getSchemaRules (snd (UserSchema_getSchemaRules s)))
       = fst (UserSchema_getSchemaRules s)
   \<and> map_of (fst (UserSchema_getSchemaRules s)) (js ''type'') = Some (JString (js ''object''))"
  by (simp add: TestSchema_getSchemaRules_def UserSchema_getSchemaRules_def)

end
